theory Spec2Isabelle
  imports Complex_Main
begin

section \<open>Python values and the library boundary\<close>

text \<open>
  The repository holds two variants of one Tk application: \<^verbatim>\<open>PGVendorManager.py\<close> and its
  older sibling \<^verbatim>\<open>vendor_tracker7.py\<close>. Definitions without a suffix embed
  \<^verbatim>\<open>PGVendorManager.py\<close>; a definition ending in \<open>_vt7\<close> embeds the function of the same
  name in \<^verbatim>\<open>vendor_tracker7.py\<close> where the two differ. A leading underscore of a Python
  name is dropped.

  Exceptions are values: a function that can raise returns \<open>error + 'a\<close>, \<open>Inl\<close> the
  exception that leaves the function.
\<close>

datatype error =
  ValueError | TypeError | OverflowError | OSError | AttributeError | KeyError

text \<open>
  A Python \<^verbatim>\<open>float\<close>, as far as the program looks at one: \<^verbatim>\<open>int(x)\<close> truncates a finite
  value and raises on the others.
\<close>

datatype pyfloat = Finite rat | PosInf | NegInf | NaN

text \<open>
  The values \<^verbatim>\<open>json.load\<close> returns, which are also the values the widgets and the
  functions pass around: \<^verbatim>\<open>None\<close>, \<^verbatim>\<open>bool\<close>, \<^verbatim>\<open>int\<close>, \<^verbatim>\<open>float\<close>, \<^verbatim>\<open>str\<close>, \<^verbatim>\<open>list\<close> and
  \<^verbatim>\<open>dict\<close> with string keys (an association list).
\<close>

datatype json =
    JNull
  | JBool bool
  | JInt int
  | JFloat pyfloat
  | JStr string
  | JList "json list"
  | JObj "(string \<times> json) list"

text \<open>
  \<^verbatim>\<open>datetime\<close> values are naive, as every value the program creates with
  \<^verbatim>\<open>datetime.now()\<close> is: a point on the local time line, counted in microseconds (the
  resolution of the Python type) from \<^verbatim>\<open>datetime.min\<close>, the start of year 1. A
  \<^verbatim>\<open>timedelta\<close> is a signed count of microseconds.
\<close>

type_synonym datetime = int
type_synonym timedelta = int

definition timedelta :: "int \<Rightarrow> int \<Rightarrow> int \<Rightarrow> timedelta" where
  \<comment> \<open>the value of \<^verbatim>\<open>timedelta(days=d, hours=h, minutes=m)\<close>\<close>
  "timedelta d h m = d * 86400000000 + h * 3600000000 + m * 60000000"

text \<open>
  The two Python types are bounded: a \<^verbatim>\<open>datetime\<close> lies between \<^verbatim>\<open>datetime.min\<close> and
  \<^verbatim>\<open>datetime.max\<close> (the last microsecond of year 9999, day 3652059), the days of a
  \<^verbatim>\<open>timedelta\<close> between -999999999 and 999999999. The constructor and the arithmetic
  raise OverflowError when the result is outside.
\<close>

definition datetime_ok :: "int \<Rightarrow> bool" where
  "datetime_ok t = (0 \<le> t \<and> t < 3652059 * 86400000000)"

definition timedelta_ok :: "int \<Rightarrow> bool" where
  "timedelta_ok x = (- 999999999 * 86400000000 \<le> x \<and> x < 1000000000 * 86400000000)"

definition new_timedelta :: "int \<Rightarrow> int \<Rightarrow> int \<Rightarrow> error + timedelta" where
  \<comment> \<open>\<^verbatim>\<open>timedelta(days=d, hours=h, minutes=m)\<close>\<close>
  "new_timedelta d h m =
     (if timedelta_ok (timedelta d h m) then Inr (timedelta d h m) else Inl OverflowError)"

definition timedelta_sub :: "timedelta \<Rightarrow> timedelta \<Rightarrow> error + timedelta" where
  \<comment> \<open>\<^verbatim>\<open>x - y\<close> on two \<^verbatim>\<open>timedelta\<close> values\<close>
  "timedelta_sub x y = (if timedelta_ok (x - y) then Inr (x - y) else Inl OverflowError)"

definition datetime_add :: "datetime \<Rightarrow> timedelta \<Rightarrow> error + datetime" where
  \<comment> \<open>\<^verbatim>\<open>t + x\<close>\<close>
  "datetime_add t x = (if datetime_ok (t + x) then Inr (t + x) else Inl OverflowError)"

definition datetime_sub :: "datetime \<Rightarrow> timedelta \<Rightarrow> error + datetime" where
  \<comment> \<open>\<^verbatim>\<open>t - x\<close>\<close>
  "datetime_sub t x = (if datetime_ok (t - x) then Inr (t - x) else Inl OverflowError)"

text \<open>
  The parsers and printers of the Python standard library are parameters of the model:
  \<^item> \<open>int_of_str s\<close> is \<^verbatim>\<open>int(s)\<close> for a string, \<open>None\<close> when it raises ValueError;
  \<^item> \<open>fromisoformat s\<close> is \<^verbatim>\<open>datetime.fromisoformat(s)\<close>, \<open>None\<close> when it raises ValueError;
  \<^item> \<open>isoformat t\<close> is \<^verbatim>\<open>t.isoformat()\<close>;
  \<^item> \<open>fromtimestamp_float s\<close> is \<^verbatim>\<open>datetime.fromtimestamp(float(s))\<close> with the exception
    either call raises.
\<close>

record pylib =
  int_of_str :: "string \<Rightarrow> int option"
  fromisoformat :: "string \<Rightarrow> datetime option"
  isoformat :: "datetime \<Rightarrow> string"
  fromtimestamp_float :: "string \<Rightarrow> error + datetime"

definition truthy :: "json \<Rightarrow> bool" where
  \<comment> \<open>the truth value Python gives a value in \<^verbatim>\<open>x or y\<close> and \<^verbatim>\<open>if not x\<close>\<close>
  "truthy x =
     (case x of
        JNull \<Rightarrow> False
      | JBool b \<Rightarrow> b
      | JInt i \<Rightarrow> i \<noteq> 0
      | JFloat f \<Rightarrow> f \<noteq> Finite 0
      | JStr s \<Rightarrow> s \<noteq> []
      | JList xs \<Rightarrow> xs \<noteq> []
      | JObj kvs \<Rightarrow> kvs \<noteq> [])"

definition py_or :: "json \<Rightarrow> json \<Rightarrow> json" where
  \<comment> \<open>\<^verbatim>\<open>x or y\<close>\<close>
  "py_or x y = (if truthy x then x else y)"

definition py_int :: "pylib \<Rightarrow> json \<Rightarrow> error + int" where
  \<comment> \<open>\<^verbatim>\<open>int(x)\<close>\<close>
  "py_int L x =
     (case x of
        JNull \<Rightarrow> Inl TypeError
      | JBool b \<Rightarrow> Inr (if b then 1 else 0)
      | JInt i \<Rightarrow> Inr i
      | JFloat f \<Rightarrow>
          (case f of
             Finite r \<Rightarrow> Inr (if r < 0 then - \<lfloor>- r\<rfloor> else \<lfloor>r\<rfloor>)
           | PosInf \<Rightarrow> Inl OverflowError
           | NegInf \<Rightarrow> Inl OverflowError
           | NaN \<Rightarrow> Inl ValueError)
      | JStr s \<Rightarrow> (case int_of_str L s of None \<Rightarrow> Inl ValueError | Some i \<Rightarrow> Inr i)
      | JList xs \<Rightarrow> Inl TypeError
      | JObj kvs \<Rightarrow> Inl TypeError)"

text \<open>
  \<^verbatim>\<open>x == y\<close> on these values. Numbers (\<^verbatim>\<open>bool\<close>, \<^verbatim>\<open>int\<close>, \<^verbatim>\<open>float\<close>) are compared by value
  across the three types, and NaN equals nothing, itself included. Two lists are equal
  when they have the same length and equal members, two dicts when they have the same keys
  with equal values; a member is compared with \<^verbatim>\<open>x is y or x == y\<close>, and every NaN that
  \<^verbatim>\<open>json.load\<close> returns is one and the same object, so inside a list or a dict NaN equals
  NaN. The keys of a dict are distinct.
\<close>

definition num_of :: "json \<Rightarrow> pyfloat option" where
  "num_of x =
     (case x of
        JBool b \<Rightarrow> Some (Finite (if b then 1 else 0))
      | JInt i \<Rightarrow> Some (Finite (of_int i))
      | JFloat f \<Rightarrow> Some f
      | _ \<Rightarrow> None)"

definition num_eq :: "pyfloat option \<Rightarrow> pyfloat option \<Rightarrow> bool" where
  "num_eq a b =
     (case a of
        None \<Rightarrow> False
      | Some x \<Rightarrow> (case b of None \<Rightarrow> False | Some y \<Rightarrow> x \<noteq> NaN \<and> x = y))"

definition same_nan :: "json \<Rightarrow> json \<Rightarrow> bool" where
  "same_nan x y = (x = JFloat NaN \<and> y = JFloat NaN)"

fun py_eq :: "json \<Rightarrow> json \<Rightarrow> bool"
  and py_eq_list :: "json list \<Rightarrow> json list \<Rightarrow> bool"
  and py_eq_items :: "(string \<times> json) list \<Rightarrow> (string \<times> json) list \<Rightarrow> bool"
where
  "py_eq JNull y = (y = JNull)"
| "py_eq (JBool b) y = num_eq (num_of (JBool b)) (num_of y)"
| "py_eq (JInt i) y = num_eq (num_of (JInt i)) (num_of y)"
| "py_eq (JFloat f) y = num_eq (num_of (JFloat f)) (num_of y)"
| "py_eq (JStr s) y = (y = JStr s)"
| "py_eq (JList xs) y = (case y of JList ys \<Rightarrow> py_eq_list xs ys | _ \<Rightarrow> False)"
| "py_eq (JObj kvs) y =
     (case y of
        JObj kvs' \<Rightarrow> set (map fst kvs) = set (map fst kvs') \<and> py_eq_items kvs kvs'
      | _ \<Rightarrow> False)"
| "py_eq_list [] ys = (ys = [])"
| "py_eq_list (x # xs) ys =
     (case ys of
        [] \<Rightarrow> False
      | y # ys' \<Rightarrow> (same_nan x y \<or> py_eq x y) \<and> py_eq_list xs ys')"
| "py_eq_items [] kvs' = True"
| "py_eq_items ((k, x) # rest) kvs' =
     ((case map_of kvs' k of
         None \<Rightarrow> False
       | Some y \<Rightarrow> same_nan x y \<or> py_eq x y)
      \<and> py_eq_items rest kvs')"

section \<open>Vendor model\<close>

text \<open>
  \<^verbatim>\<open>class Vendor\<close>. The constructor stores \<^verbatim>\<open>name\<close>, \<^verbatim>\<open>zone\<close> and \<^verbatim>\<open>categories\<close> as it is
  given them, so the three fields hold any Python value; \<^verbatim>\<open>council_left\<close> and
  \<^verbatim>\<open>reset_maximum\<close> go through \<^verbatim>\<open>int(...)\<close>.
\<close>

record vendor =
  name :: json
  zone :: json
  council_left :: int
  last_reset :: datetime
  reset_maximum :: int
  categories :: json

definition next_reset :: "vendor \<Rightarrow> datetime" where
  \<comment> \<open>the property \<^verbatim>\<open>Vendor.next_reset\<close>\<close>
  "next_reset v = last_reset v + timedelta 7 0 0"

text \<open>
  \<open>next_reset\<close> is the value of the property; \<open>next_reset_checked\<close> is the property with
  the OverflowError of the addition, which it raises for a last reset in the last week of
  year 9999.
\<close>

definition next_reset_checked :: "vendor \<Rightarrow> error + datetime" where
  "next_reset_checked v = datetime_add (last_reset v) (timedelta 7 0 0)"

section \<open>Clustering\<close>

definition THRESH :: timedelta where
  "THRESH = timedelta 0 1 0"

text \<open>
  The loop of \<^verbatim>\<open>_group_vendors_by_reset_time\<close> over \<^verbatim>\<open>range(1, len(vendors))\<close>: \<open>prev\<close> is
  \<^verbatim>\<open>vendors[i-1]\<close>, the first list holds \<^verbatim>\<open>vendors[i:]\<close>.
\<close>

fun group_loop :: "vendor list \<Rightarrow> vendor \<Rightarrow> vendor list \<Rightarrow> vendor list list \<Rightarrow> vendor list list" where
  "group_loop [] prev current clusters =
     (if current \<noteq> [] then clusters @ [current] else clusters)"
| "group_loop (v # vs) prev current clusters =
     (if next_reset v - next_reset prev > THRESH
      then group_loop vs v [v] (clusters @ [current])
      else group_loop vs v (current @ [v]) clusters)"

definition group_vendors_by_reset_time :: "vendor list \<Rightarrow> vendor list list" where
  "group_vendors_by_reset_time vendors =
     (case vendors of
        [] \<Rightarrow> []
      | v0 # rest \<Rightarrow> group_loop rest v0 [v0] [])"

section \<open>Time input\<close>

definition MAX_TOTAL_MINUTES :: int where
  "MAX_TOTAL_MINUTES = 6 * 24 * 60 + 23 * 60 + 59"

text \<open>
  The \<^verbatim>\<open>try\<close> block of \<^verbatim>\<open>_clamp_reset_inputs\<close>: the three conversions in order, the first
  exception ending the block.
\<close>

definition clamp_try :: "pylib \<Rightarrow> json \<Rightarrow> json \<Rightarrow> json \<Rightarrow> error + (int \<times> int \<times> int)" where
  "clamp_try L days hours minutes =
     (case py_int L (py_or days (JInt 0)) of
        Inl e \<Rightarrow> Inl e
      | Inr d \<Rightarrow>
          (case py_int L (py_or hours (JInt 0)) of
             Inl e \<Rightarrow> Inl e
           | Inr h \<Rightarrow>
               (case py_int L (py_or minutes (JInt 0)) of
                  Inl e \<Rightarrow> Inl e
                | Inr m \<Rightarrow> Inr (max 0 d, max 0 h, max 0 m))))"

definition clamp_reset_inputs ::
  "pylib \<Rightarrow> json \<Rightarrow> json \<Rightarrow> json \<Rightarrow> bool \<Rightarrow> error + (int \<times> int \<times> int)" where
  "clamp_reset_inputs L days hours minutes override_max_time =
     (case clamp_try L days hours minutes of
        Inl e \<Rightarrow> (if e = ValueError \<or> e = TypeError then Inr (0, 0, 0) else Inl e)
      | Inr (d, h, m) \<Rightarrow>
          (if \<not> override_max_time then
             (let total_minutes = d * 24 * 60 + h * 60 + m;
                  total_minutes' =
                    (if total_minutes > MAX_TOTAL_MINUTES then MAX_TOTAL_MINUTES
                     else total_minutes);
                  d' = total_minutes' div (24 * 60);
                  remainder = total_minutes' mod (24 * 60)
              in Inr (d', remainder div 60, remainder mod 60))
           else Inr (d, min h 23, min m 59)))"

definition calculate_last_reset ::
  "pylib \<Rightarrow> datetime \<Rightarrow> json \<Rightarrow> json \<Rightarrow> json \<Rightarrow> bool \<Rightarrow> error + datetime" where
  "calculate_last_reset L now days hours minutes override_max_time =
     (case clamp_reset_inputs L days hours minutes override_max_time of
        Inl e \<Rightarrow> Inl e
      | Inr (d, h, m) \<Rightarrow>
          (case new_timedelta d h m of
             Inl e \<Rightarrow> Inl e
           | Inr time_until_reset \<Rightarrow>
               (if \<not> override_max_time then
                  (case timedelta_sub (timedelta 7 0 0) time_until_reset of
                     Inl e \<Rightarrow> Inl e
                   | Inr time_since_last_reset \<Rightarrow> datetime_sub now time_since_last_reset)
                else
                  (case datetime_add now time_until_reset of
                     Inl e \<Rightarrow> Inl e
                   | Inr t \<Rightarrow> datetime_sub t (timedelta 7 0 0)))))"

text \<open>
  \<^verbatim>\<open>vendor_tracker7._clamp_reset_inputs\<close> has no override flag, bounds each field on its
  own and catches ValueError only.
\<close>

definition clamp_try_vt7 :: "pylib \<Rightarrow> json \<Rightarrow> json \<Rightarrow> json \<Rightarrow> error + (int \<times> int \<times> int)" where
  "clamp_try_vt7 L days hours minutes =
     (case py_int L (py_or days (JInt 0)) of
        Inl e \<Rightarrow> Inl e
      | Inr d \<Rightarrow>
          (case py_int L (py_or hours (JInt 0)) of
             Inl e \<Rightarrow> Inl e
           | Inr h \<Rightarrow>
               (case py_int L (py_or minutes (JInt 0)) of
                  Inl e \<Rightarrow> Inl e
                | Inr m \<Rightarrow> Inr (max 0 (min 6 d), max 0 (min 23 h), max 0 (min 59 m)))))"

definition clamp_reset_inputs_vt7 ::
  "pylib \<Rightarrow> json \<Rightarrow> json \<Rightarrow> json \<Rightarrow> error + (int \<times> int \<times> int)" where
  "clamp_reset_inputs_vt7 L days hours minutes =
     (case clamp_try_vt7 L days hours minutes of
        Inl e \<Rightarrow> (if e = ValueError then Inr (0, 0, 0) else Inl e)
      | Inr dhm \<Rightarrow> Inr dhm)"

section \<open>Vendor construction\<close>

text \<open>
  What a caller hands the constructor as \<^verbatim>\<open>last_reset\<close>: a \<^verbatim>\<open>datetime\<close> object, or any
  other Python value.
\<close>

datatype pyarg = Dt datetime | Val json

text \<open>
  Lines 26 to 40 of \<^verbatim>\<open>Vendor.__init__\<close>: the coercion of \<^verbatim>\<open>last_reset\<close>. \<open>now\<close> is the
  reading of \<^verbatim>\<open>datetime.now()\<close>.
\<close>

definition coerce_last_reset :: "pylib \<Rightarrow> datetime \<Rightarrow> pyarg \<Rightarrow> error + datetime" where
  "coerce_last_reset L now last_reset' =
     (case last_reset' of
        Val (JStr s) \<Rightarrow>
          (case fromisoformat L s of
             Some t \<Rightarrow> Inr t
           | None \<Rightarrow>
               (case fromtimestamp_float L s of
                  Inr t \<Rightarrow> Inr t
                | Inl e \<Rightarrow> (if e = ValueError \<or> e = OverflowError then Inr now else Inl e)))
      | Dt t \<Rightarrow> Inr t
      | Val other \<Rightarrow> Inr now)"

definition Vendor_init ::
  "pylib \<Rightarrow> datetime \<Rightarrow> json \<Rightarrow> json \<Rightarrow> json \<Rightarrow> pyarg \<Rightarrow> json \<Rightarrow> json \<Rightarrow> error + vendor" where
  "Vendor_init L now name' zone' council_left' last_reset' reset_maximum' categories' =
     (case py_int L council_left' of
        Inl e \<Rightarrow> Inl e
      | Inr cl \<Rightarrow>
          (case coerce_last_reset L now last_reset' of
             Inl e \<Rightarrow> Inl e
           | Inr lr \<Rightarrow>
               (case py_int L reset_maximum' of
                  Inl e \<Rightarrow> Inl e
                | Inr rm \<Rightarrow>
                    Inr \<lparr>name = name', zone = zone', council_left = cl, last_reset = lr,
                         reset_maximum = rm, categories = py_or categories' (JList [])\<rparr>)))"

text \<open>
  \<^verbatim>\<open>vendor_tracker7.Vendor.__init__\<close>, for integer \<^verbatim>\<open>council_left\<close> and \<^verbatim>\<open>reset_maximum\<close>
  (it stores both without conversion; its user interface passes integers).
\<close>

definition coerce_last_reset_vt7 :: "pylib \<Rightarrow> pyarg \<Rightarrow> error + datetime" where
  "coerce_last_reset_vt7 L last_reset' =
     (case last_reset' of
        Val (JStr s) \<Rightarrow> (case fromisoformat L s of Some t \<Rightarrow> Inr t | None \<Rightarrow> Inl ValueError)
      | Dt t \<Rightarrow> Inr t
      | Val other \<Rightarrow> Inl ValueError)"

definition Vendor_init_vt7 ::
  "pylib \<Rightarrow> json \<Rightarrow> json \<Rightarrow> int \<Rightarrow> pyarg \<Rightarrow> int \<Rightarrow> json \<Rightarrow> error + vendor" where
  "Vendor_init_vt7 L name' zone' council_left' last_reset' reset_maximum' categories' =
     (case coerce_last_reset_vt7 L last_reset' of
        Inl e \<Rightarrow> Inl e
      | Inr lr \<Rightarrow>
          Inr \<lparr>name = name', zone = zone', council_left = council_left', last_reset = lr,
               reset_maximum = max council_left' reset_maximum',
               categories = py_or categories' (JList [])\<rparr>)"

section \<open>Persistence\<close>

definition dict_get :: "(string \<times> json) list \<Rightarrow> string \<Rightarrow> json \<Rightarrow> json" where
  \<comment> \<open>\<^verbatim>\<open>d.get(k, default)\<close>\<close>
  "dict_get kvs k dflt = (case map_of kvs k of None \<Rightarrow> dflt | Some x \<Rightarrow> x)"

definition to_dict :: "pylib \<Rightarrow> vendor \<Rightarrow> json" where
  "to_dict L v =
     JObj [(''name'', name v),
           (''zone'', zone v),
           (''council_left'', JInt (council_left v)),
           (''last_reset'', JStr (isoformat L (last_reset v))),
           (''reset_maximum'', JInt (reset_maximum v)),
           (''categories'', categories v)]"

text \<open>
  \<^verbatim>\<open>Vendor.from_dict(d)\<close>: on a value that is not a \<^verbatim>\<open>dict\<close>, \<^verbatim>\<open>d.get\<close> raises
  AttributeError.
\<close>

definition from_dict :: "pylib \<Rightarrow> datetime \<Rightarrow> json \<Rightarrow> error + vendor" where
  "from_dict L now d =
     (case d of
        JObj kvs \<Rightarrow>
          Vendor_init L now
            (dict_get kvs ''name'' (JStr ''''))
            (dict_get kvs ''zone'' (JStr ''''))
            (dict_get kvs ''council_left'' (JInt 0))
            (Val (dict_get kvs ''last_reset'' (JStr (isoformat L now))))
            (dict_get kvs ''reset_maximum'' (JInt 0))
            (dict_get kvs ''categories'' (JList []))
      | _ \<Rightarrow> Inl AttributeError)"

text \<open>
  Strings hold the characters below code point 256. \<^verbatim>\<open>str.isspace\<close> and \<^verbatim>\<open>str.isalnum\<close>
  on them:
\<close>

definition py_isspace :: "char \<Rightarrow> bool" where
  "py_isspace c = (of_char c \<in> {9, 10, 11, 12, 13, 28, 29, 30, 31, 32, 133, 160 :: nat})"

definition py_isalnum :: "char \<Rightarrow> bool" where
  "py_isalnum c =
     (let n = (of_char c :: nat) in
      (48 \<le> n \<and> n \<le> 57) \<or> (65 \<le> n \<and> n \<le> 90) \<or> (97 \<le> n \<and> n \<le> 122) \<or>
      n \<in> {170, 178, 179, 181, 185, 186, 188, 189, 190} \<or>
      (192 \<le> n \<and> n \<le> 214) \<or> (216 \<le> n \<and> n \<le> 246) \<or> 248 \<le> n)"

definition py_rstrip :: "string \<Rightarrow> string" where
  "py_rstrip s = rev (dropWhile py_isspace (rev s))"

definition py_strip :: "string \<Rightarrow> string" where
  "py_strip s = dropWhile py_isspace (py_rstrip s)"

text \<open>
  The data directory is a map from file names to contents. A file holds the text of a
  JSON value, or text that \<^verbatim>\<open>json.load\<close> rejects with JSONDecodeError; writing and
  reading back a value is the identity. Failures of the operating system and files that
  are not UTF-8 are outside the model.
\<close>

datatype stored = Content json | Corrupt

type_synonym store = "string \<Rightarrow> stored option"

definition character_file_path :: "string \<Rightarrow> string" where
  "character_file_path character_name =
     (let safe_name =
        py_rstrip (filter (\<lambda>c. py_isalnum c \<or> c \<in> {CHR '' '', CHR ''-'', CHR ''_''})
                     character_name)
      in safe_name @ ''_vendors.json'')"

definition save_vendors :: "pylib \<Rightarrow> vendor list \<Rightarrow> string \<Rightarrow> store \<Rightarrow> store" where
  "save_vendors L vs character_name fs =
     (let file_path = character_file_path character_name;
          vendor_list = map (to_dict L) vs
      in fs(file_path \<mapsto> Content (JList vendor_list)))"

text \<open>
  The \<^verbatim>\<open>for vendor_data in ...\<close> loop of \<^verbatim>\<open>load_vendors\<close>. Its handler prints
  \<^verbatim>\<open>vendor_data.get('name', 'Unknown')\<close>, which raises AttributeError again when the entry
  is not a \<^verbatim>\<open>dict\<close>; neither \<^verbatim>\<open>except\<close> clause of the enclosing \<^verbatim>\<open>try\<close> catches that.
\<close>

fun load_entries :: "pylib \<Rightarrow> datetime \<Rightarrow> json list \<Rightarrow> vendor list \<Rightarrow> error + vendor list" where
  "load_entries L now [] acc = Inr acc"
| "load_entries L now (vendor_data # rest) acc =
     (case from_dict L now vendor_data of
        Inr v \<Rightarrow> load_entries L now rest (acc @ [v])
      | Inl e \<Rightarrow>
          (case vendor_data of
             JObj kvs \<Rightarrow> load_entries L now rest acc
           | _ \<Rightarrow> Inl AttributeError))"

definition load_vendors :: "pylib \<Rightarrow> datetime \<Rightarrow> string \<Rightarrow> store \<Rightarrow> error + vendor list" where
  "load_vendors L now character_name fs =
     (case fs (character_file_path character_name) of
        None \<Rightarrow> Inr []
      | Some Corrupt \<Rightarrow> Inr []
      | Some (Content data) \<Rightarrow>
          (case data of
             JList entries \<Rightarrow> load_entries L now entries []
           | JObj kvs \<Rightarrow>
               (let vendors_blob =
                      py_or (py_or (dict_get kvs ''vendors'' JNull)
                                   (dict_get kvs ''vendor_list'' JNull))
                            (JList [])
                in case vendors_blob of
                     JList entries \<Rightarrow> load_entries L now entries []
                   | _ \<Rightarrow> Inr [])
           | _ \<Rightarrow> Inr []))"

section \<open>The application\<close>

text \<open>
  The part of \<^verbatim>\<open>VendorApp\<close> the operations read and write: \<^verbatim>\<open>self.vendors\<close>,
  \<^verbatim>\<open>self.current_character\<close> and the data directory.
\<close>

record app =
  vendors :: "vendor list"
  current_character :: string
  files :: store

text \<open>
  What the widgets of the Add and the Update window hold when a button is pressed.
  \<open>council_entry\<close> is the amount after \<^verbatim>\<open>int(float(council_entry.get() or 0) * 1000)\<close>,
  \<open>None\<close> when that conversion raises (the floating-point product is not modelled);
  \<open>cat_vars\<close> tells which of the fixed category boxes are ticked.
\<close>

record form =
  name_entry :: string
  zone_entry :: string
  council_entry :: "int option"
  days_entry :: string
  hours_entry :: string
  minutes_entry :: string
  max_time_override_var :: bool
  cat_vars :: "string \<Rightarrow> bool"
  custom_var :: bool
  custom_entry :: string

definition category_names :: "string list" where
  "category_names = [''Jewelry'', ''Armor'', ''Weapons'', ''Scrolls'', ''Misc'']"

text \<open>The three \<^verbatim>\<open>int(entry.get() or 0)\<close> conversions of the raw time values.\<close>

definition raw_times :: "pylib \<Rightarrow> form \<Rightarrow> error + (int \<times> int \<times> int)" where
  "raw_times L f =
     (case py_int L (py_or (JStr (days_entry f)) (JInt 0)) of
        Inl e \<Rightarrow> Inl e
      | Inr d_raw \<Rightarrow>
          (case py_int L (py_or (JStr (hours_entry f)) (JInt 0)) of
             Inl e \<Rightarrow> Inl e
           | Inr h_raw \<Rightarrow>
               (case py_int L (py_or (JStr (minutes_entry f)) (JInt 0)) of
                  Inl e \<Rightarrow> Inl e
                | Inr m_raw \<Rightarrow> Inr (d_raw, h_raw, m_raw))))"

text \<open>The loop that removes duplicates and keeps the order of first occurrence.\<close>

fun dedupe :: "string list \<Rightarrow> string set \<Rightarrow> string list \<Rightarrow> string list" where
  "dedupe [] seen final_cats = final_cats"
| "dedupe (c # cs) seen final_cats =
     (if c \<notin> seen then dedupe cs (insert c seen) (final_cats @ [c])
      else dedupe cs seen final_cats)"

fun split_on :: "char \<Rightarrow> string \<Rightarrow> string list" where
  \<comment> \<open>\<^verbatim>\<open>s.split(sep)\<close> for a separator of one character\<close>
  "split_on sep [] = [[]]"
| "split_on sep (x # xs) =
     (if x = sep then [] # split_on sep xs
      else (case split_on sep xs of
              [] \<Rightarrow> [[x]]
            | w # ws \<Rightarrow> (x # w) # ws))"

text \<open>
  \<^verbatim>\<open>add_and_save\<close> of the Add window. Every \<^verbatim>\<open>return\<close> after an error dialog, and the
  outer \<^verbatim>\<open>except Exception\<close>, leave the state as it was.
\<close>

definition add_and_save :: "pylib \<Rightarrow> datetime \<Rightarrow> form \<Rightarrow> app \<Rightarrow> app" where
  "add_and_save L now f a =
     (let name' = py_strip (name_entry f);
          zone' = py_strip (zone_entry f)
      in
      if name' = [] then a
      else
        (case council_entry f of
           None \<Rightarrow> a
         | Some council \<Rightarrow>
             (case raw_times L f of
                Inl e \<Rightarrow> a
              | Inr (d_raw, h_raw, m_raw) \<Rightarrow>
                  (let override_flag = max_time_override_var f;
                       total_minutes = d_raw * 24 * 60 + h_raw * 60 + m_raw
                   in
                   if total_minutes > MAX_TOTAL_MINUTES \<and> \<not> override_flag then a
                   else
                     (case clamp_reset_inputs L (JInt d_raw) (JInt h_raw) (JInt m_raw)
                             override_flag of
                        Inl e \<Rightarrow> a
                      | Inr (d, h, m) \<Rightarrow>
                          (case calculate_last_reset L now (JInt d) (JInt h) (JInt m)
                                  override_flag of
                             Inl e \<Rightarrow> a
                           | Inr last_reset' \<Rightarrow>
                               (let reset_maximum' = council;
                                    cv = py_strip (custom_entry f);
                                    selected_cats =
                                      filter (cat_vars f) category_names
                                      @ (if custom_var f \<and> cv \<noteq> [] then [cv] else []);
                                    final_cats = dedupe selected_cats {} []
                                in
                                case Vendor_init L now (JStr name') (JStr zone') (JInt council)
                                       (Dt last_reset') (JInt reset_maximum')
                                       (JList (map JStr final_cats)) of
                                  Inl e \<Rightarrow> a
                                | Inr new_vendor \<Rightarrow>
                                    (let vs = vendors a @ [new_vendor]
                                     in a\<lparr>vendors := vs,
                                          files := save_vendors L vs (current_character a)
                                                     (files a)\<rparr>))))))))"

text \<open>
  The Update window works on one \<^verbatim>\<open>Vendor\<close> object. \<open>reset_vendor\<close> holds the assignments
  \<^verbatim>\<open>reset_now\<close> makes to its fields. \<^verbatim>\<open>update_vendor_action\<close> assigns in two steps:
  \<open>update_council\<close> before it calls \<^verbatim>\<open>calculate_last_reset\<close>, the rest (\<open>update_vendor\<close> is
  both steps) after the call has returned.
\<close>

definition reset_vendor :: "datetime \<Rightarrow> vendor \<Rightarrow> vendor" where
  "reset_vendor now v =
     (let v1 = v\<lparr>last_reset := now\<rparr>
      in if reset_maximum v1 > 0 then v1\<lparr>council_left := reset_maximum v1\<rparr> else v1)"

definition update_council :: "int \<Rightarrow> vendor \<Rightarrow> vendor" where
  "update_council new_council v =
     (let v1 = v\<lparr>council_left := new_council\<rparr>
      in if new_council > reset_maximum v1 then v1\<lparr>reset_maximum := new_council\<rparr> else v1)"

definition update_vendor :: "int \<Rightarrow> datetime \<Rightarrow> string list \<Rightarrow> vendor \<Rightarrow> vendor" where
  "update_vendor new_council last_reset' final_cats v =
     (let v2 = update_council new_council v;
          v3 = v2\<lparr>last_reset := last_reset'\<rparr>
      in v3\<lparr>categories := JList (map JStr final_cats)\<rparr>)"

text \<open>
  In the operations on the state, \<open>i\<close> is the position in \<^verbatim>\<open>self.vendors\<close> of the object
  the window was opened for; a position outside the list stands for an object that is no
  longer in it, whose assignments do not show in the list. \<open>confirm\<close> is the answer to
  \<^verbatim>\<open>messagebox.askyesno\<close>. When \<^verbatim>\<open>calculate_last_reset\<close> raises in
  \<^verbatim>\<open>update_vendor_action\<close>, the outer handler shows the error; the object keeps the
  amounts assigned before the call and nothing is saved.
\<close>

definition reset_now :: "pylib \<Rightarrow> datetime \<Rightarrow> bool \<Rightarrow> nat \<Rightarrow> app \<Rightarrow> app" where
  "reset_now L now confirm i a =
     (if confirm then
        (let vs = (vendors a)[i := reset_vendor now (vendors a ! i)]
         in a\<lparr>vendors := vs,
              files := save_vendors L vs (current_character a) (files a)\<rparr>)
      else a)"

definition update_vendor_action :: "pylib \<Rightarrow> datetime \<Rightarrow> form \<Rightarrow> nat \<Rightarrow> app \<Rightarrow> app" where
  "update_vendor_action L now f i a =
     (case council_entry f of
        None \<Rightarrow> a
      | Some new_council \<Rightarrow>
             (case raw_times L f of
                Inl e \<Rightarrow> a
              | Inr (d_raw, h_raw, m_raw) \<Rightarrow>
                  (let override_flag = max_time_override_var f;
                       total_minutes = d_raw * 24 * 60 + h_raw * 60 + m_raw
                   in
                   if total_minutes > MAX_TOTAL_MINUTES \<and> \<not> override_flag then a
                   else
                     (case clamp_reset_inputs L (JInt d_raw) (JInt h_raw) (JInt m_raw)
                             override_flag of
                        Inl e \<Rightarrow> a
                      | Inr (d, h, m) \<Rightarrow>
                          (case calculate_last_reset L now (JInt d) (JInt h) (JInt m)
                                  override_flag of
                             Inl e \<Rightarrow>
                               a\<lparr>vendors := (vendors a)
                                    [i := update_council new_council (vendors a ! i)]\<rparr>
                           | Inr last_reset' \<Rightarrow>
                               (let cv = py_strip (custom_entry f);
                                    extras = filter (\<lambda>x. x \<noteq> [])
                                               (map py_strip (split_on (CHR '','') cv));
                                    selected_cats =
                                      filter (cat_vars f) category_names
                                      @ (if custom_var f \<and> cv \<noteq> [] then extras else []);
                                    final_cats = dedupe selected_cats {} [];
                                    vs = (vendors a)
                                           [i := update_vendor new_council last_reset'
                                                   final_cats (vendors a ! i)]
                                in a\<lparr>vendors := vs,
                                     files := save_vendors L vs (current_character a)
                                                (files a)\<rparr>))))))"

definition delete_vendor :: "pylib \<Rightarrow> bool \<Rightarrow> vendor \<Rightarrow> app \<Rightarrow> app" where
  "delete_vendor L confirm vendor_to_delete a =
     (if confirm then
        (let vs = filter (\<lambda>v. \<not> py_eq (name v) (name vendor_to_delete)) (vendors a)
         in a\<lparr>vendors := vs,
              files := save_vendors L vs (current_character a) (files a)\<rparr>)
      else a)"

text \<open>
  A library instance for the closed examples below. It answers as CPython 3.11 does, on
  a Linux machine whose local time is UTC, on the values the examples use, and is
  arbitrary elsewhere: \<^verbatim>\<open>datetime(2024, 1, 1, 10, 0)\<close> is 63839700000000000 microseconds
  after \<^verbatim>\<open>datetime(1, 1, 1)\<close>, which is 0; \<^verbatim>\<open>datetime.fromtimestamp(1700000000.0)\<close> is
  \<^verbatim>\<open>datetime(2023, 11, 14, 22, 13, 20)\<close>; \<^verbatim>\<open>datetime.fromtimestamp(1e17)\<close> raises OSError;
  \<^verbatim>\<open>float('yesterday')\<close> raises ValueError.
\<close>

definition example_lib :: pylib where
  "example_lib =
     \<lparr>int_of_str = (\<lambda>s. if s = ''5000'' then Some 5000 else None),
      fromisoformat =
        (\<lambda>s. if s = ''2024-01-01T10:00:00'' then Some 63839700000000000
             else if s = ''0001-01-01T00:00:00'' then Some 0
             else None),
      isoformat =
        (\<lambda>t. if t = 63839700000000000 then ''2024-01-01T10:00:00''
             else ''0001-01-01T00:00:00''),
      fromtimestamp_float =
        (\<lambda>s. if s = ''1700000000'' then Inr 63835596800000000
             else if s = ''1e17'' then Inl OSError
             else Inl ValueError)\<rparr>"

definition example_now :: datetime where
  \<comment> \<open>\<^verbatim>\<open>datetime(2024, 1, 1, 10, 0)\<close>\<close>
  "example_now = 63839700000000000"

section \<open>Reference notions for the statements\<close>

definition total_of :: "int \<times> int \<times> int \<Rightarrow> int" where
  \<comment> \<open>the minutes a triple (days, hours, minutes) stands for\<close>
  "total_of dhm = (case dhm of (d, h, m) \<Rightarrow> d * 1440 + h * 60 + m)"

text \<open>
  The normalisation as the specification words it, with the ceiling as a parameter: total
  the minutes, clamp the total to the ceiling, re-express it by floor division.
\<close>

definition normalize_spec :: "int \<Rightarrow> int \<Rightarrow> int \<Rightarrow> int \<Rightarrow> int \<times> int \<times> int" where
  "normalize_spec cap d h m =
     (let totalMinutes = d * 1440 + h * 60 + m;
          clamped = (if totalMinutes > cap then cap else totalMinutes)
      in (clamped div 1440, (clamped mod 1440) div 60, (clamped mod 1440) mod 60))"

definition duration :: "int \<times> int \<times> int \<Rightarrow> timedelta" where
  \<comment> \<open>the time a triple (days, hours, minutes) stands for\<close>
  "duration dhm = (case dhm of (d, h, m) \<Rightarrow> timedelta d h m)"

text \<open>
  The steps of \<^verbatim>\<open>calculate_last_reset\<close> on a normalised triple all stay within the range of
  their type: the duration; without override the time since the last reset and \<open>now\<close>
  less that time; with override \<open>now\<close> plus the duration and that sum less seven days.
\<close>

definition time_in_range :: "datetime \<Rightarrow> bool \<Rightarrow> int \<times> int \<times> int \<Rightarrow> bool" where
  "time_in_range now override dhm =
     (timedelta_ok (duration dhm) \<and>
      (if \<not> override then
         timedelta_ok (timedelta 7 0 0 - duration dhm)
         \<and> datetime_ok (now - (timedelta 7 0 0 - duration dhm))
       else
         datetime_ok (now + duration dhm)
         \<and> datetime_ok (now + duration dhm - timedelta 7 0 0)))"

definition example_vendor :: vendor where
  "example_vendor =
     \<lparr>name = JStr ''Hulon'', zone = JStr ''Serbule'', council_left = 0,
      last_reset = 63839700000000000, reset_maximum = 5000,
      categories = JList [JStr ''Armor'']\<rparr>"

text \<open>
  What the constructor (\<^verbatim>\<open>categories or []\<close>) and the Update window (a list) leave in
  \<^verbatim>\<open>categories\<close>: a value that counts as true, or the empty list.
\<close>

definition categories_normal :: "vendor \<Rightarrow> bool" where
  "categories_normal v = (truthy (categories v) \<or> categories v = JList [])"

text \<open>
  The \<^verbatim>\<open>last_reset\<close> a vendor is to end with, in the words of the specification: a
  \<^verbatim>\<open>datetime\<close> is kept; a string is read as ISO text, else as a numeric epoch, else
  replaced by the current time; any other value is replaced by the current time.
\<close>

definition coerced :: "pylib \<Rightarrow> datetime \<Rightarrow> pyarg \<Rightarrow> datetime" where
  "coerced L now a =
     (case a of
        Dt t \<Rightarrow> t
      | Val (JStr s) \<Rightarrow>
          (case fromisoformat L s of
             Some t \<Rightarrow> t
           | None \<Rightarrow> (case fromtimestamp_float L s of Inr t \<Rightarrow> t | Inl e \<Rightarrow> now))
      | Val other \<Rightarrow> now)"

text \<open>
  What a string argument needs for the constructor of \<^verbatim>\<open>PGVendorManager.py\<close> to get past
  it: it parses as ISO text, or its conversion from a numeric epoch returns or raises one
  of the two exceptions the handler names. Any other argument passes.
\<close>

definition epoch_caught :: "pylib \<Rightarrow> pyarg \<Rightarrow> bool" where
  "epoch_caught L a =
     (case a of
        Val (JStr s) \<Rightarrow>
          (case fromisoformat L s of
             Some t \<Rightarrow> True
           | None \<Rightarrow>
               (case fromtimestamp_float L s of
                  Inr t \<Rightarrow> True
                | Inl e \<Rightarrow> e = ValueError \<or> e = OverflowError))
      | _ \<Rightarrow> True)"

text \<open>
  When \<^verbatim>\<open>add_and_save\<close> goes through: a name that is not blank, a numeric amount, integer
  time fields, a total within the ceiling unless the override box is ticked, and a time
  that \<^verbatim>\<open>calculate_last_reset\<close> can represent. The vendors present play no part.
\<close>

definition add_accepted :: "pylib \<Rightarrow> datetime \<Rightarrow> form \<Rightarrow> bool" where
  "add_accepted L now f =
     (py_strip (name_entry f) \<noteq> [] \<and> council_entry f \<noteq> None \<and>
      (case raw_times L f of
         Inl e \<Rightarrow> False
       | Inr (d_raw, h_raw, m_raw) \<Rightarrow>
           \<not> (d_raw * 24 * 60 + h_raw * 60 + m_raw > MAX_TOTAL_MINUTES
              \<and> \<not> max_time_override_var f)
           \<and> (case clamp_reset_inputs L (JInt d_raw) (JInt h_raw) (JInt m_raw)
                      (max_time_override_var f) of
                 Inl e \<Rightarrow> False
               | Inr dhm \<Rightarrow> time_in_range now (max_time_override_var f) dhm)))"

definition example_form :: form where
  "example_form =
     \<lparr>name_entry = '' Hulon '', zone_entry = ''Serbule'', council_entry = Some 5000,
      days_entry = '''', hours_entry = '''', minutes_entry = '''',
      max_time_override_var = False, cat_vars = (\<lambda>c. c = ''Armor''),
      custom_var = False, custom_entry = ''''\<rparr>"

definition example_app :: app where
  "example_app = \<lparr>vendors = [], current_character = ''Default'', files = (\<lambda>p. None)\<rparr>"

section \<open>Clustering: what the walk computes\<close>

lemma group_loop_concat:
  "concat (group_loop vs prev current clusters) = concat clusters @ current @ vs"
  by (induction vs arbitrary: prev current clusters) auto

lemma group_loop_snoc:
  "current \<noteq> [] \<Longrightarrow>
   group_loop (vs @ [v]) prev current clusters =
     (if next_reset v - next_reset (last (prev # vs)) > THRESH
      then group_loop vs prev current clusters @ [[v]]
      else butlast (group_loop vs prev current clusters)
             @ [last (group_loop vs prev current clusters) @ [v]])"
  by (induction vs arbitrary: prev current clusters) auto

lemma group_snoc:
  "group_vendors_by_reset_time (vs @ [p, v]) =
     (if next_reset v - next_reset p > timedelta 0 1 0
      then group_vendors_by_reset_time (vs @ [p]) @ [[v]]
      else butlast (group_vendors_by_reset_time (vs @ [p]))
             @ [last (group_vendors_by_reset_time (vs @ [p])) @ [v]])"
proof (cases vs)
  case Nil
  then show ?thesis
    by (simp add: group_vendors_by_reset_time_def THRESH_def)
next
  case (Cons a as)
  have "group_vendors_by_reset_time ((a # as @ [p]) @ [v]) =
     (if next_reset v - next_reset (last (a # as @ [p])) > THRESH
      then group_loop (as @ [p]) a [a] [] @ [[v]]
      else butlast (group_loop (as @ [p]) a [a] [])
             @ [last (group_loop (as @ [p]) a [a] []) @ [v]])"
    using group_loop_snoc [of "[a]" "as @ [p]" v a "[]"]
    by (simp add: group_vendors_by_reset_time_def)
  then show ?thesis using Cons
    by (simp add: group_vendors_by_reset_time_def THRESH_def)
qed

lemma group_example:
  "group_vendors_by_reset_time
     [a\<lparr>last_reset := t\<rparr>, b\<lparr>last_reset := t + timedelta 0 0 30\<rparr>,
      c\<lparr>last_reset := t + timedelta 0 2 0\<rparr>, d\<lparr>last_reset := t + timedelta 0 2 10\<rparr>] =
   [[a\<lparr>last_reset := t\<rparr>, b\<lparr>last_reset := t + timedelta 0 0 30\<rparr>],
    [c\<lparr>last_reset := t + timedelta 0 2 0\<rparr>, d\<lparr>last_reset := t + timedelta 0 2 10\<rparr>]]"
  by (simp add: group_vendors_by_reset_time_def next_reset_def THRESH_def timedelta_def)

lemma example_last_reset: "last_reset example_vendor = 63839700000000000"
  by (simp add: example_vendor_def)

text \<open>
  Claim C1. \<^verbatim>\<open>_group_vendors_by_reset_time\<close> (the same text in both variants) returns no
  cluster for the empty sequence and one cluster of size one for a single vendor. When a
  vendor \<open>v\<close> follows a vendor \<open>p\<close>, a new cluster \<open>[v]\<close> is started exactly when
  \<open>next_reset v - next_reset p\<close> is strictly greater than one hour, and otherwise \<open>v\<close> is
  added at the end of the last cluster. Vendors with next resets at
  \<open>t\<close>, \<open>t + 30 min\<close>, \<open>t + 2 h\<close> and \<open>t + 2 h 10 min\<close> fall into two clusters of two. The
  statement holds for every sequence, sorted or not.
\<close>

theorem group_by_reset_proximity:
  "group_vendors_by_reset_time [] = []
   \<and> group_vendors_by_reset_time [v] = [[v]]
   \<and> group_vendors_by_reset_time (vs @ [p, v]) =
       (if next_reset v - next_reset p > timedelta 0 1 0
        then group_vendors_by_reset_time (vs @ [p]) @ [[v]]
        else butlast (group_vendors_by_reset_time (vs @ [p]))
               @ [last (group_vendors_by_reset_time (vs @ [p])) @ [v]])
   \<and> group_vendors_by_reset_time
       [a\<lparr>last_reset := t\<rparr>, b\<lparr>last_reset := t + timedelta 0 0 30\<rparr>,
        c\<lparr>last_reset := t + timedelta 0 2 0\<rparr>, d\<lparr>last_reset := t + timedelta 0 2 10\<rparr>] =
     [[a\<lparr>last_reset := t\<rparr>, b\<lparr>last_reset := t + timedelta 0 0 30\<rparr>],
      [c\<lparr>last_reset := t + timedelta 0 2 0\<rparr>, d\<lparr>last_reset := t + timedelta 0 2 10\<rparr>]]"
proof -
  have "group_vendors_by_reset_time [] = []"
    by (simp add: group_vendors_by_reset_time_def)
  moreover have "group_vendors_by_reset_time [v] = [[v]]"
    by (simp add: group_vendors_by_reset_time_def)
  ultimately show ?thesis
    using group_snoc [where vs = vs and p = p and v = v]
      group_example [where a = a and t = t and b = b and c = c and d = d] by simp
qed

theorem group_by_reset_proximity_witness:
  "group_vendors_by_reset_time
     [example_vendor, example_vendor\<lparr>last_reset := 63839700000000000 + 3600000000\<rparr>]
   = [[example_vendor, example_vendor\<lparr>last_reset := 63839700000000000 + 3600000000\<rparr>]]
   \<and> group_vendors_by_reset_time
     [example_vendor, example_vendor\<lparr>last_reset := 63839700000000000 + 3600000001\<rparr>]
   = [[example_vendor], [example_vendor\<lparr>last_reset := 63839700000000000 + 3600000001\<rparr>]]"
  using group_by_reset_proximity
    [where vs = "[]" and p = example_vendor
       and v = "example_vendor\<lparr>last_reset := 63839700000000000 + 3600000000\<rparr>"]
    group_by_reset_proximity
    [where vs = "[]" and p = example_vendor
       and v = "example_vendor\<lparr>last_reset := 63839700000000000 + 3600000001\<rparr>"]
    group_by_reset_proximity [where v = example_vendor]
  by (simp add: next_reset_def timedelta_def example_last_reset)

text \<open>
  Claim C10. For every sequence of vendors, sorted or not, the clusters that
  \<^verbatim>\<open>_group_vendors_by_reset_time\<close> returns, put one after the other, are the input
  sequence: every vendor once, in the order given.
\<close>

theorem group_concat:
  "concat (group_vendors_by_reset_time vs) = vs"
  by (simp add: group_vendors_by_reset_time_def group_loop_concat split: list.splits)

theorem group_concat_witness:
  "concat (group_vendors_by_reset_time
     [example_vendor\<lparr>last_reset := 5\<rparr>, example_vendor, example_vendor\<lparr>last_reset := 7\<rparr>])
   = [example_vendor\<lparr>last_reset := 5\<rparr>, example_vendor, example_vendor\<lparr>last_reset := 7\<rparr>]"
  using group_concat
    [where vs = "[example_vendor\<lparr>last_reset := 5\<rparr>, example_vendor,
                  example_vendor\<lparr>last_reset := 7\<rparr>]"]
  by simp

section \<open>Time input: clamping\<close>

lemma py_int_JInt: "py_int L (py_or (JInt i) (JInt 0)) = Inr i"
  by (simp add: py_int_def py_or_def truthy_def)

lemma clamp_try_ints:
  "clamp_try L (JInt d) (JInt h) (JInt m) = Inr (max 0 d, max 0 h, max 0 m)"
  by (simp add: clamp_try_def py_int_JInt)

lemma clamp_no_override:
  assumes "0 \<le> d" "0 \<le> h" "0 \<le> m"
  shows "clamp_reset_inputs L (JInt d) (JInt h) (JInt m) False = Inr (normalize_spec 10079 d h m)"
  using assms
  by (simp add: clamp_reset_inputs_def clamp_try_ints normalize_spec_def MAX_TOTAL_MINUTES_def
      Let_def mult.commute)

lemma clamp_no_override_ints:
  "clamp_reset_inputs L (JInt d) (JInt h) (JInt m) False =
     Inr (normalize_spec 10079 (max 0 d) (max 0 h) (max 0 m))"
  by (simp add: clamp_reset_inputs_def clamp_try_ints normalize_spec_def MAX_TOTAL_MINUTES_def
      Let_def mult.commute)

lemma total_normalize:
  "total_of (normalize_spec c d h m) = min (d * 1440 + h * 60 + m) c"
proof -
  define t where "t = (if d * 1440 + h * 60 + m > c then c else d * 1440 + h * 60 + m)"
  have "t div 1440 * 1440 + (t mod 1440 div 60 * 60 + t mod 1440 mod 60) = t"
    by (simp add: div_mult_mod_eq)
  then show ?thesis
    by (simp add: total_of_def normalize_spec_def Let_def t_def min_def)
qed

lemma clamp_override:
  "clamp_reset_inputs L (JInt d) (JInt h) (JInt m) True =
     Inr (max 0 d, min (max 0 h) 23, min (max 0 m) 59)"
  by (simp add: clamp_reset_inputs_def clamp_try_ints)

lemma clamp_ints_total:
  "\<exists>d' h' m'. clamp_reset_inputs L (JInt d) (JInt h) (JInt m) ov = Inr (d', h', m')"
  by (simp add: clamp_reset_inputs_def clamp_try_ints Let_def)

text \<open>
  \<^verbatim>\<open>vendor_tracker7._clamp_reset_inputs\<close>, which has no override flag, bounds each field
  on its own and carries nothing over.
\<close>

lemma clamp_vt7_ints:
  "clamp_reset_inputs_vt7 L (JInt d) (JInt h) (JInt m) =
     Inr (max 0 (min 6 d), max 0 (min 23 h), max 0 (min 59 m))"
  by (simp add: clamp_reset_inputs_vt7_def clamp_try_vt7_def py_int_JInt)

text \<open>
  Claim C2, as stated, names 9959 minutes as the ceiling. The ceiling of the code is
  \<^verbatim>\<open>MAX_TOTAL_MINUTES = 6 * 24 * 60 + 23 * 60 + 59\<close>, which is 10079: six days and
  twenty-two hours are 9960 minutes, above 9959, and come back unchanged. The function
  of the same name in \<^verbatim>\<open>vendor_tracker7.py\<close> does not total the minutes at all: one day,
  30 hours and 75 minutes are 3315 minutes, within either ceiling, and come back as one
  day, 23 hours and 59 minutes, which are 2879.
\<close>

theorem normalize_ceiling_counterexample:
  "clamp_reset_inputs example_lib (JInt 6) (JInt 22) (JInt 0) False = Inr (6, 22, 0)
   \<and> total_of (6, 22, 0) = 9960
   \<and> \<not> total_of (6, 22, 0) \<le> 9959
   \<and> normalize_spec 9959 6 22 0 = (6, 21, 59)
   \<and> clamp_reset_inputs_vt7 example_lib (JInt 1) (JInt 30) (JInt 75) = Inr (1, 23, 59)
   \<and> total_of (1, 30, 75) = 3315
   \<and> total_of (1, 23, 59) = 2879"
  by (simp add: clamp_reset_inputs_def clamp_try_ints normalize_spec_def MAX_TOTAL_MINUTES_def
      total_of_def clamp_vt7_ints)

text \<open>
  Claim C2, amended. For every triple of non-negative integers: in \<^verbatim>\<open>PGVendorManager.py\<close>,
  with \<^verbatim>\<open>override_max_time = False\<close>, \<^verbatim>\<open>_clamp_reset_inputs\<close> totals the minutes, clamps
  the total to 10079 (6 days 23 hours 59 minutes) and re-expresses it by floor division
  by 1440 and 60; the total of the output lies between 0 and 10079, never exceeds the
  total of the input, and equals it when that is within the ceiling. In
  \<^verbatim>\<open>vendor_tracker7.py\<close>, which has no override flag, \<^verbatim>\<open>_clamp_reset_inputs\<close> caps the days at
  6, the hours at 23 and the minutes at 59, each on its own and with no carry; the total
  of the output lies between 0 and 10079, never exceeds the total of the input, and
  equals it exactly when no field is above its cap.
\<close>

theorem normalize_no_override:
  assumes "0 \<le> d" "0 \<le> h" "0 \<le> m"
  shows "clamp_reset_inputs L (JInt d) (JInt h) (JInt m) False = Inr (normalize_spec 10079 d h m)
       \<and> 0 \<le> total_of (normalize_spec 10079 d h m)
       \<and> total_of (normalize_spec 10079 d h m) \<le> 10079
       \<and> total_of (normalize_spec 10079 d h m) \<le> total_of (d, h, m)
       \<and> total_of (normalize_spec 10079 d h m) = min (total_of (d, h, m)) 10079
       \<and> clamp_reset_inputs_vt7 L (JInt d) (JInt h) (JInt m) = Inr (min 6 d, min 23 h, min 59 m)
       \<and> 0 \<le> total_of (min 6 d, min 23 h, min 59 m)
       \<and> total_of (min 6 d, min 23 h, min 59 m) \<le> 10079
       \<and> total_of (min 6 d, min 23 h, min 59 m) \<le> total_of (d, h, m)
       \<and> (total_of (min 6 d, min 23 h, min 59 m) = total_of (d, h, m))
           = (d \<le> 6 \<and> h \<le> 23 \<and> m \<le> 59)"
proof -
  have t: "total_of (normalize_spec 10079 d h m) = min (d * 1440 + h * 60 + m) 10079"
    by (rule total_normalize)
  have nn: "0 \<le> d * 1440 + h * 60 + m" using assms by simp
  have pg: "clamp_reset_inputs L (JInt d) (JInt h) (JInt m) False = Inr (normalize_spec 10079 d h m)
       \<and> 0 \<le> total_of (normalize_spec 10079 d h m)
       \<and> total_of (normalize_spec 10079 d h m) \<le> 10079
       \<and> total_of (normalize_spec 10079 d h m) \<le> total_of (d, h, m)
       \<and> total_of (normalize_spec 10079 d h m) = min (total_of (d, h, m)) 10079"
    using clamp_no_override [OF assms, of L] t nn by (simp add: total_of_def)
  have v1: "clamp_reset_inputs_vt7 L (JInt d) (JInt h) (JInt m) = Inr (min 6 d, min 23 h, min 59 m)"
    using assms by (simp add: clamp_vt7_ints)
  have v2: "0 \<le> total_of (min 6 d, min 23 h, min 59 m)"
    using assms by (simp add: total_of_def)
  have v3: "total_of (min 6 d, min 23 h, min 59 m) \<le> 10079"
    by (simp add: total_of_def min_def)
  have v4: "total_of (min 6 d, min 23 h, min 59 m) \<le> total_of (d, h, m)"
    by (simp add: total_of_def min_def)
  have v5: "(total_of (min 6 d, min 23 h, min 59 m) = total_of (d, h, m))
           = (d \<le> 6 \<and> h \<le> 23 \<and> m \<le> 59)"
    by (auto simp add: total_of_def min_def)
  show ?thesis
    using pg v1 v2 v3 v4 v5 by simp
qed

theorem normalize_no_override_witness:
  "(0::int) \<le> 7 \<and> (0::int) \<le> 30 \<and> (0::int) \<le> 75
   \<and> clamp_reset_inputs example_lib (JInt 7) (JInt 30) (JInt 75) False = Inr (6, 23, 59)
   \<and> clamp_reset_inputs example_lib (JInt 1) (JInt 30) (JInt 75) False = Inr (2, 7, 15)
   \<and> clamp_reset_inputs_vt7 example_lib (JInt 7) (JInt 30) (JInt 75) = Inr (6, 23, 59)
   \<and> clamp_reset_inputs_vt7 example_lib (JInt 1) (JInt 30) (JInt 75) = Inr (1, 23, 59)"
  using normalize_no_override [where L = example_lib and d = 7 and h = 30 and m = 75]
    normalize_no_override [where L = example_lib and d = 1 and h = 30 and m = 75]
  by (simp add: normalize_spec_def)

text \<open>
  Claim C8. With \<^verbatim>\<open>override_max_time = True\<close>, \<^verbatim>\<open>_clamp_reset_inputs\<close> puts no upper bound
  on the days, caps the hours at 23 and the minutes at 59, each field on its own, and
  carries nothing from one field to another (a negative field counts as 0, as in the
  other branch): 30 hours come back as 23 hours with the days as given.
\<close>

theorem normalize_override:
  "clamp_reset_inputs L (JInt d) (JInt h) (JInt m) True =
     Inr (max 0 d, min (max 0 h) 23, min (max 0 m) 59)
   \<and> clamp_reset_inputs L (JInt 6) (JInt 30) (JInt 0) True = Inr (6, 23, 0)
   \<and> clamp_reset_inputs L (JInt 9) (JInt 5) (JInt 75) True = Inr (9, 5, 59)"
  by (simp add: clamp_override)

theorem normalize_override_witness:
  "clamp_reset_inputs example_lib (JInt 12) (JInt 30) (JInt 61) True = Inr (12, 23, 59)"
  using normalize_override [where L = example_lib and d = 12 and h = 30 and m = 61] by simp

section \<open>Time input: the last reset\<close>

text \<open>The duration counts the minutes of the triple.\<close>

lemma duration_total: "duration dhm = total_of dhm * 60000000"
  by (cases dhm) (simp add: duration_def total_of_def timedelta_def)

text \<open>
  \<^verbatim>\<open>calculate_last_reset\<close> raises what \<^verbatim>\<open>_clamp_reset_inputs\<close> raises; otherwise it returns
  when every step stays in range and raises OverflowError when one does not.
\<close>

lemma calc_eq:
  "calculate_last_reset L now days hours minutes ov =
     (case clamp_reset_inputs L days hours minutes ov of
        Inl e \<Rightarrow> Inl e
      | Inr dhm \<Rightarrow>
          (if time_in_range now ov dhm
           then Inr (now - (timedelta 7 0 0 - duration dhm))
           else Inl OverflowError))"
  by (auto simp add: calculate_last_reset_def time_in_range_def duration_def new_timedelta_def
      timedelta_sub_def datetime_add_def datetime_sub_def
      split: sum.splits prod.splits)

text \<open>
  With \<open>now\<close> a \<^verbatim>\<open>datetime\<close>, only one bound matters without override (a normalised triple
  stands for at most 10079 minutes) and two with it.
\<close>

lemma no_override_range:
  assumes "datetime_ok now"
    and "clamp_reset_inputs L (JInt d) (JInt h) (JInt m) False = Inr dhm"
  shows "time_in_range now False dhm = (timedelta 7 0 0 - duration dhm \<le> now)"
proof -
  have dhm: "dhm = normalize_spec 10079 (max 0 d) (max 0 h) (max 0 m)"
    using assms(2) by (simp add: clamp_no_override_ints)
  have t: "total_of dhm = min (max 0 d * 1440 + max 0 h * 60 + max 0 m) 10079"
    unfolding dhm by (rule total_normalize)
  have nn: "0 \<le> max 0 d * 1440 + max 0 h * 60 + max 0 m" by simp
  have b: "0 \<le> total_of dhm \<and> total_of dhm \<le> 10079"
    using t nn by simp
  show ?thesis
    using b assms(1)
    by (auto simp add: time_in_range_def duration_total timedelta_ok_def datetime_ok_def
        timedelta_def)
qed

lemma override_range:
  assumes "datetime_ok now"
    and "clamp_reset_inputs L (JInt d) (JInt h) (JInt m) True = Inr dhm"
  shows "time_in_range now True dhm =
           (now + duration dhm < 3652059 * 86400000000
            \<and> timedelta 7 0 0 \<le> now + duration dhm)"
proof -
  have dhm: "dhm = (max 0 d, min (max 0 h) 23, min (max 0 m) 59)"
    using assms(2) by (simp add: clamp_override)
  have nn: "0 \<le> duration dhm"
    unfolding dhm by (simp add: duration_def timedelta_def)
  show ?thesis
    using nn assms(1)
    by (auto simp add: time_in_range_def timedelta_ok_def datetime_ok_def timedelta_def)
qed

lemma readback:
  "next_reset_checked (v\<lparr>last_reset := now - (timedelta 7 0 0 - x)\<rparr>) =
     (if datetime_ok (now + x) then Inr (now + x) else Inl OverflowError)"
  by (simp add: next_reset_checked_def datetime_add_def)

text \<open>
  Claim C3 says that the identity holds for every input triple, with override also when
  the duration exceeds seven days. A \<^verbatim>\<open>datetime\<close> ends with year 9999: on 1 January 2024,
  10:00, 4000000 days with the override box ticked make \<^verbatim>\<open>calculate_last_reset\<close> raise
  OverflowError, and so do 2913174 days, for which \<open>now - (7 days - duration)\<close> is a
  \<^verbatim>\<open>datetime\<close> but \<open>now + duration\<close>, which the override branch computes first, is not.
\<close>

theorem last_reset_overflow_counterexample:
  "datetime_ok example_now
   \<and> clamp_reset_inputs example_lib (JInt 4000000) (JInt 0) (JInt 0) True = Inr (4000000, 0, 0)
   \<and> calculate_last_reset example_lib example_now (JInt 4000000) (JInt 0) (JInt 0) True
       = Inl OverflowError
   \<and> calculate_last_reset example_lib example_now (JInt 2913174) (JInt 0) (JInt 0) True
       = Inl OverflowError
   \<and> datetime_ok (example_now - (timedelta 7 0 0 - timedelta 2913174 0 0))"
  by (simp add: calc_eq clamp_override time_in_range_def duration_def timedelta_def
      timedelta_ok_def datetime_ok_def example_now_def)

text \<open>
  Claim C3, amended. Let \<open>now\<close> be a \<^verbatim>\<open>datetime\<close>. \<^verbatim>\<open>calculate_last_reset\<close> raises what
  \<^verbatim>\<open>_clamp_reset_inputs\<close> raises (nothing, on integers). On the normalised triple it returns
  exactly when every step stays within the range of \<^verbatim>\<open>datetime\<close> and \<^verbatim>\<open>timedelta\<close>, and
  raises OverflowError otherwise: on integers without override it returns exactly when
  \<open>now\<close> is at least \<open>7 days - duration\<close> after \<^verbatim>\<open>datetime.min\<close>; with override exactly when
  \<open>now + duration\<close> is at most \<^verbatim>\<open>datetime.max\<close> and at least seven days after
  \<^verbatim>\<open>datetime.min\<close>. When it returns, in both branches the last reset is
  \<open>now - (7 days - duration)\<close>, and the next reset of a vendor given that last reset is
  \<open>now + duration\<close>, to the microsecond, when that is a \<^verbatim>\<open>datetime\<close> (the property raises
  OverflowError when it is not).
\<close>

theorem last_reset_readback:
  assumes "datetime_ok now"
  shows
    "(case clamp_reset_inputs L days hours minutes ov of
        Inl e \<Rightarrow> calculate_last_reset L now days hours minutes ov = Inl e
      | Inr dhm \<Rightarrow>
          calculate_last_reset L now days hours minutes ov =
            (if time_in_range now ov dhm
             then Inr (now - (timedelta 7 0 0 - duration dhm))
             else Inl OverflowError)
          \<and> next_reset_checked (v\<lparr>last_reset := now - (timedelta 7 0 0 - duration dhm)\<rparr>) =
              (if datetime_ok (now + duration dhm) then Inr (now + duration dhm)
               else Inl OverflowError))
     \<and> (\<exists>dhm. dhm = (if ov then (max 0 d, min (max 0 h) 23, min (max 0 m) 59)
                       else normalize_spec 10079 (max 0 d) (max 0 h) (max 0 m))
           \<and> clamp_reset_inputs L (JInt d) (JInt h) (JInt m) ov = Inr dhm
           \<and> time_in_range now ov dhm =
               (if ov
                then now + duration dhm < 3652059 * 86400000000
                     \<and> timedelta 7 0 0 \<le> now + duration dhm
                else timedelta 7 0 0 - duration dhm \<le> now))"
proof -
  have a: "(case clamp_reset_inputs L days hours minutes ov of
        Inl e \<Rightarrow> calculate_last_reset L now days hours minutes ov = Inl e
      | Inr dhm \<Rightarrow>
          calculate_last_reset L now days hours minutes ov =
            (if time_in_range now ov dhm
             then Inr (now - (timedelta 7 0 0 - duration dhm))
             else Inl OverflowError)
          \<and> next_reset_checked (v\<lparr>last_reset := now - (timedelta 7 0 0 - duration dhm)\<rparr>) =
              (if datetime_ok (now + duration dhm) then Inr (now + duration dhm)
               else Inl OverflowError))"
    by (simp add: calc_eq readback split: sum.splits)
  obtain d' h' m' where c: "clamp_reset_inputs L (JInt d) (JInt h) (JInt m) ov = Inr (d', h', m')"
    using clamp_ints_total by blast
  have b: "time_in_range now ov (d', h', m') =
               (if ov
                then now + duration (d', h', m') < 3652059 * 86400000000
                     \<and> timedelta 7 0 0 \<le> now + duration (d', h', m')
                else timedelta 7 0 0 - duration (d', h', m') \<le> now)"
  proof (cases ov)
    case True
    then show ?thesis using override_range [OF assms] c by simp
  next
    case False
    then show ?thesis using no_override_range [OF assms] c by simp
  qed
  have e: "(d', h', m') = (if ov then (max 0 d, min (max 0 h) 23, min (max 0 m) 59)
                       else normalize_spec 10079 (max 0 d) (max 0 h) (max 0 m))"
    using c by (cases ov) (simp_all add: clamp_override clamp_no_override_ints)
  have "\<exists>dhm. dhm = (if ov then (max 0 d, min (max 0 h) 23, min (max 0 m) 59)
                       else normalize_spec 10079 (max 0 d) (max 0 h) (max 0 m))
           \<and> clamp_reset_inputs L (JInt d) (JInt h) (JInt m) ov = Inr dhm
           \<and> time_in_range now ov dhm =
               (if ov
                then now + duration dhm < 3652059 * 86400000000
                     \<and> timedelta 7 0 0 \<le> now + duration dhm
                else timedelta 7 0 0 - duration dhm \<le> now)"
    using b c e by metis
  then show ?thesis
    using a by blast
qed

theorem last_reset_readback_witness:
  "datetime_ok example_now
   \<and> calculate_last_reset example_lib example_now (JInt 9) (JInt 30) (JInt 5) True
       = Inr (example_now - (timedelta 7 0 0 - timedelta 9 23 5))
   \<and> calculate_last_reset example_lib example_now (JInt 2) (JInt 3) (JInt 4) False
       = Inr (example_now - (timedelta 7 0 0 - timedelta 2 3 4))
   \<and> next_reset_checked
        (example_vendor\<lparr>last_reset := example_now - (timedelta 7 0 0 - timedelta 2 3 4)\<rparr>)
       = Inr (example_now + timedelta 2 3 4)"
proof -
  have ok: "datetime_ok example_now"
    by (simp add: datetime_ok_def example_now_def)
  have c1: "clamp_reset_inputs example_lib (JInt 9) (JInt 30) (JInt 5) True = Inr (9, 23, 5)"
    by (simp add: clamp_override)
  have c2: "clamp_reset_inputs example_lib (JInt 2) (JInt 3) (JInt 4) False = Inr (2, 3, 4)"
    by (simp add: clamp_no_override normalize_spec_def)
  have r1: "time_in_range example_now True (9, 23, 5)"
    by (simp add: time_in_range_def duration_def timedelta_def timedelta_ok_def datetime_ok_def
        example_now_def)
  have r2: "time_in_range example_now False (2, 3, 4)"
    by (simp add: time_in_range_def duration_def timedelta_def timedelta_ok_def datetime_ok_def
        example_now_def)
  have n: "datetime_ok (example_now + timedelta 2 3 4)"
    by (simp add: timedelta_def datetime_ok_def example_now_def)
  show ?thesis
    using ok c1 c2 r1 r2 n
      last_reset_readback [OF ok, where L = example_lib and days = "JInt 9"
        and hours = "JInt 30" and minutes = "JInt 5" and ov = True
        and v = example_vendor]
      last_reset_readback [OF ok, where L = example_lib and days = "JInt 2"
        and hours = "JInt 3" and minutes = "JInt 4" and ov = False
        and v = example_vendor]
    by (simp add: duration_def)
qed

section \<open>Manual reset\<close>

text \<open>
  Claim C9. \<^verbatim>\<open>reset_now\<close> (the same text in both variants), once confirmed, sets the
  vendor's \<^verbatim>\<open>last_reset\<close> to the time of the call and sets \<^verbatim>\<open>council_left\<close> to
  \<^verbatim>\<open>reset_maximum\<close> exactly when \<^verbatim>\<open>reset_maximum > 0\<close>; with \<^verbatim>\<open>reset_maximum\<close> at 0 or below
  \<^verbatim>\<open>council_left\<close> stays. No other field changes, and a declined dialog changes nothing.
  A vendor with \<^verbatim>\<open>reset_maximum = 5000\<close> and \<^verbatim>\<open>council_left = 0\<close> ends with 5000.
\<close>

theorem reset_now_sets_fields:
  "last_reset (reset_vendor now v) = now
   \<and> council_left (reset_vendor now v) =
       (if reset_maximum v > 0 then reset_maximum v else council_left v)
   \<and> reset_maximum (reset_vendor now v) = reset_maximum v
   \<and> name (reset_vendor now v) = name v
   \<and> zone (reset_vendor now v) = zone v
   \<and> categories (reset_vendor now v) = categories v
   \<and> vendors (reset_now L now True i a) = (vendors a)[i := reset_vendor now (vendors a ! i)]
   \<and> reset_now L now False i a = a
   \<and> council_left (reset_vendor now (v\<lparr>council_left := 0, reset_maximum := 5000\<rparr>)) = 5000
   \<and> last_reset (reset_vendor now (v\<lparr>council_left := 0, reset_maximum := 5000\<rparr>)) = now"
  by (simp add: reset_vendor_def reset_now_def Let_def)

theorem reset_now_sets_fields_witness:
  "council_left (reset_vendor 77 example_vendor) = 5000
   \<and> last_reset (reset_vendor 77 example_vendor) = 77
   \<and> council_left (reset_vendor 77 (example_vendor\<lparr>council_left := 12, reset_maximum := 0\<rparr>)) = 12"
  using reset_now_sets_fields [where now = 77 and v = example_vendor]
    reset_now_sets_fields
      [where now = 77 and v = "example_vendor\<lparr>council_left := 12, reset_maximum := 0\<rparr>"]
  by (simp add: example_vendor_def)

section \<open>Persistence: save and load\<close>

lemma from_dict_to_dict:
  assumes "fromisoformat L (isoformat L (last_reset v)) = Some (last_reset v)"
    and "categories_normal v"
  shows "from_dict L now (to_dict L v) = Inr v"
proof -
  have c: "py_or (categories v) (JList []) = categories v"
    using assms(2) by (auto simp add: categories_normal_def py_or_def)
  show ?thesis
    using assms(1) c
    by (simp add: from_dict_def to_dict_def dict_get_def Vendor_init_def py_int_def
        coerce_last_reset_def)
qed

lemma load_entries_to_dict:
  assumes "\<forall>v\<in>set vs. fromisoformat L (isoformat L (last_reset v)) = Some (last_reset v)"
    and "\<forall>v\<in>set vs. categories_normal v"
  shows "load_entries L now (map (to_dict L) vs) acc = Inr (acc @ vs)"
  using assms
  by (induction vs arbitrary: acc) (simp_all add: from_dict_to_dict)

text \<open>Every vendor the program builds or edits has normal categories.\<close>

lemma Vendor_init_categories_normal:
  "Vendor_init L now n z c a r cats = Inr v \<Longrightarrow> categories_normal v"
  by (auto simp add: Vendor_init_def categories_normal_def py_or_def truthy_def
      split: sum.splits if_splits)

lemma update_vendor_categories_normal:
  "categories_normal (update_vendor c t cats v)"
  by (cases cats) (simp_all add: update_vendor_def categories_normal_def truthy_def Let_def)

lemma update_council_categories_normal:
  "categories_normal v \<Longrightarrow> categories_normal (update_council c v)"
  by (simp add: update_council_def categories_normal_def Let_def)

lemma reset_vendor_categories_normal:
  "categories_normal v \<Longrightarrow> categories_normal (reset_vendor now v)"
  by (simp add: reset_vendor_def categories_normal_def Let_def)

text \<open>
  Claim C4. For every collection of vendors (empty or not) and every character name,
  \<^verbatim>\<open>save_vendors\<close> followed by \<^verbatim>\<open>load_vendors\<close> gives back the collection: the same
  length, the same order, every field of every vendor equal, \<^verbatim>\<open>last_reset\<close> to the
  microsecond. The two hypotheses say what the code relies on: the library reads back the
  ISO text it prints for each \<^verbatim>\<open>last_reset\<close>, and \<^verbatim>\<open>categories\<close> is as the constructor and
  the Update window leave it.
\<close>

theorem save_load_roundtrip:
  assumes "\<forall>v\<in>set vs. fromisoformat L (isoformat L (last_reset v)) = Some (last_reset v)"
    and "\<forall>v\<in>set vs. categories_normal v"
  shows "load_vendors L now character_name (save_vendors L vs character_name fs) = Inr vs"
  using load_entries_to_dict [OF assms, of now "[]"]
  by (simp add: load_vendors_def save_vendors_def Let_def)

theorem save_load_roundtrip_witness:
  "load_vendors example_lib 0 ''Al!ce 2''
     (save_vendors example_lib
        [example_vendor, example_vendor\<lparr>name := JStr ''Joe'', council_left := 250\<rparr>]
        ''Al!ce 2'' (\<lambda>p. None))
   = Inr [example_vendor, example_vendor\<lparr>name := JStr ''Joe'', council_left := 250\<rparr>]"
  using save_load_roundtrip
    [where L = example_lib and now = 0 and character_name = "''Al!ce 2''"
       and fs = "\<lambda>p. None"
       and vs = "[example_vendor, example_vendor\<lparr>name := JStr ''Joe'', council_left := 250\<rparr>]"]
  by (simp add: example_lib_def example_vendor_def categories_normal_def truthy_def)

section \<open>Persistence: bad data\<close>

text \<open>
  What \<^verbatim>\<open>load_vendors\<close> does right: a missing file and a file that is not JSON give the
  empty collection, a list of objects never makes it raise, and an object whose
  \<^verbatim>\<open>council_left\<close> does not convert is skipped.
\<close>

lemma load_missing:
  "fs (character_file_path c) = None \<Longrightarrow> load_vendors L now c fs = Inr []"
  by (simp add: load_vendors_def)

lemma load_corrupt:
  "fs (character_file_path c) = Some Corrupt \<Longrightarrow> load_vendors L now c fs = Inr []"
  by (simp add: load_vendors_def)

lemma load_entries_dicts:
  "\<forall>e\<in>set entries. \<exists>kvs. e = JObj kvs \<Longrightarrow> \<exists>ws. load_entries L now entries acc = Inr ws"
  by (induction entries arbitrary: acc) (auto split: sum.splits)

lemma load_skips_malformed_dict:
  assumes "fromisoformat L (isoformat L (last_reset v)) = Some (last_reset v)"
    and "categories_normal v" and "py_int L bad = Inl e"
  shows "load_vendors L now c
           (fs(character_file_path c \<mapsto>
                 Content (JList [to_dict L v,
                                 JObj [(''name'', JStr ''x''), (''council_left'', bad)]])))
         = Inr [v]"
  using from_dict_to_dict [OF assms(1,2), of now] assms(3)
  by (simp add: load_vendors_def) (simp add: from_dict_def dict_get_def Vendor_init_def)

text \<open>
  Claim C5 says that \<^verbatim>\<open>load_vendors\<close> never fails as a whole and skips each entry that
  does not parse. The code attempts it (a \<^verbatim>\<open>try\<close> around each entry) and misses the
  entries that are not objects: for the file \<^verbatim>\<open>[{...a saved vendor...}, 5]\<close> the handler's
  own \<^verbatim>\<open>vendor_data.get\<close> raises AttributeError, which leaves \<^verbatim>\<open>load_vendors\<close>, whatever
  the first entry is.
\<close>

theorem load_aborts_on_non_dict_entry:
  "load_vendors L now c (fs(character_file_path c \<mapsto> Content (JList [to_dict L v, JInt 5])))
     = Inl AttributeError"
  by (simp add: load_vendors_def from_dict_def to_dict_def split: sum.splits)

theorem load_aborts_on_non_dict_entry_witness:
  "load_vendors example_lib 0 ''Default''
     ((\<lambda>p. None)(character_file_path ''Default'' \<mapsto>
        Content (JList [to_dict example_lib example_vendor, JInt 5])))
   = Inl AttributeError"
  using load_aborts_on_non_dict_entry
    [where L = example_lib and now = 0 and c = "''Default''" and fs = "\<lambda>p. None"
       and v = example_vendor]
  by simp

section \<open>Vendor construction: the last reset\<close>

lemma coerce_returns:
  assumes "epoch_caught L a"
  shows "coerce_last_reset L now a = Inr (coerced L now a)"
  using assms
  by (auto simp add: coerce_last_reset_def coerced_def epoch_caught_def
      split: pyarg.splits json.splits option.splits sum.splits)

text \<open>
  The constructor of \<^verbatim>\<open>PGVendorManager.py\<close> lets through what its handler does not name:
  on the machine of the examples the string \<^verbatim>\<open>'1e17'\<close> is no ISO text, and its conversion
  from an epoch raises OSError.
\<close>

lemma coerce_raises:
  assumes "\<not> epoch_caught L a"
  shows "\<exists>e. coerce_last_reset L now a = Inl e \<and> e \<noteq> ValueError \<and> e \<noteq> OverflowError"
  using assms
  by (auto simp add: coerce_last_reset_def epoch_caught_def
      split: pyarg.splits json.splits option.splits sum.splits)

lemma construction_oserror:
  "Vendor_init example_lib now n z (JInt c) (Val (JStr ''1e17'')) (JInt r) cats = Inl OSError"
  by (simp add: Vendor_init_def py_int_def coerce_last_reset_def example_lib_def)

text \<open>
  Claim C6 says that construction never aborts, whatever \<^verbatim>\<open>last_reset\<close> is. The
  constructor of \<^verbatim>\<open>vendor_tracker7.py\<close> raises ValueError by its own \<^verbatim>\<open>raise\<close> for a value
  that is neither string nor \<^verbatim>\<open>datetime\<close> (here a numeric epoch), and lets the ValueError
  of \<^verbatim>\<open>fromisoformat\<close> pass for a string that does not parse.
\<close>

theorem construction_raises_vt7_counterexample:
  "Vendor_init_vt7 example_lib (JStr ''Hulon'') (JStr ''Serbule'') 0 (Val (JInt 1700000000))
     5000 (JList []) = Inl ValueError
   \<and> Vendor_init_vt7 example_lib (JStr ''Hulon'') (JStr ''Serbule'') 0 (Val (JStr ''yesterday''))
     5000 (JList []) = Inl ValueError"
  by (simp add: Vendor_init_vt7_def coerce_last_reset_vt7_def example_lib_def)

text \<open>
  Claim C6, amended. In \<^verbatim>\<open>PGVendorManager.py\<close>, when the two amounts convert, construction
  returns a vendor for every \<^verbatim>\<open>last_reset\<close> that is a \<^verbatim>\<open>datetime\<close> (kept), a value that is
  neither string nor \<^verbatim>\<open>datetime\<close> (replaced by the current time), or a string that parses
  as ISO text (read), or whose conversion from a numeric epoch returns (read) or raises
  ValueError or OverflowError (replaced by the current time). In \<^verbatim>\<open>vendor_tracker7.py\<close> a
  \<^verbatim>\<open>datetime\<close> is kept and a string that parses is read; a string that does not parse and
  a value that is neither string nor \<^verbatim>\<open>datetime\<close> raise ValueError.
\<close>

theorem construction_keeps_going:
  assumes "epoch_caught L a"
    and "py_int L cl = Inr c" and "py_int L rm = Inr r"
  shows "(\<exists>v. Vendor_init L now n z cl a rm cats = Inr v \<and> last_reset v = coerced L now a)
       \<and> coerced L now (Dt t) = t
       \<and> coerced L now (Val (JStr s)) =
           (case fromisoformat L s of
              Some t \<Rightarrow> t
            | None \<Rightarrow> (case fromtimestamp_float L s of Inr t \<Rightarrow> t | Inl e \<Rightarrow> now))
       \<and> coerced L now (Val JNull) = now
       \<and> coerced L now (Val (JBool b)) = now
       \<and> coerced L now (Val (JInt i)) = now
       \<and> coerced L now (Val (JFloat x)) = now
       \<and> coerced L now (Val (JList xs)) = now
       \<and> coerced L now (Val (JObj kvs)) = now
       \<and> epoch_caught L (Dt t)
       \<and> epoch_caught L (Val JNull)
       \<and> epoch_caught L (Val (JBool b))
       \<and> epoch_caught L (Val (JInt i))
       \<and> epoch_caught L (Val (JFloat x))
       \<and> epoch_caught L (Val (JList xs))
       \<and> epoch_caught L (Val (JObj kvs))
       \<and> epoch_caught L (Val (JStr s)) =
           (case fromisoformat L s of
              Some t \<Rightarrow> True
            | None \<Rightarrow>
                (case fromtimestamp_float L s of
                   Inr t \<Rightarrow> True
                 | Inl e \<Rightarrow> e = ValueError \<or> e = OverflowError))
       \<and> Vendor_init_vt7 L n z c (Dt t) r cats =
           Inr \<lparr>name = n, zone = z, council_left = c, last_reset = t,
                reset_maximum = max c r, categories = py_or cats (JList [])\<rparr>
       \<and> Vendor_init_vt7 L n z c (Val (JStr s)) r cats =
           (case fromisoformat L s of
              Some t \<Rightarrow> Inr \<lparr>name = n, zone = z, council_left = c, last_reset = t,
                             reset_maximum = max c r, categories = py_or cats (JList [])\<rparr>
            | None \<Rightarrow> Inl ValueError)
       \<and> Vendor_init_vt7 L n z c (Val JNull) r cats = Inl ValueError
       \<and> Vendor_init_vt7 L n z c (Val (JInt i)) r cats = Inl ValueError"
  using coerce_returns [OF assms(1), where now = now] assms(2,3)
  by (simp add: Vendor_init_def coerced_def Vendor_init_vt7_def coerce_last_reset_vt7_def
      epoch_caught_def split: option.splits)

theorem construction_keeps_going_witness:
  "fromtimestamp_float example_lib ''1e17'' = Inl OSError
   \<and> (\<exists>v. Vendor_init example_lib example_now (JStr ''Hulon'') (JStr ''Serbule'') (JInt 0)
          (Val (JStr ''yesterday'')) (JInt 5000) JNull = Inr v
        \<and> last_reset v = example_now)
   \<and> (\<exists>v. Vendor_init example_lib example_now (JStr ''Hulon'') (JStr ''Serbule'') (JInt 0)
          (Val (JStr ''2024-01-01T10:00:00'')) (JInt 5000) JNull = Inr v
        \<and> last_reset v = 63839700000000000)
   \<and> (\<exists>v. Vendor_init example_lib example_now (JStr ''Hulon'') (JStr ''Serbule'') (JInt 0)
          (Val (JStr ''1700000000'')) (JInt 5000) JNull = Inr v
        \<and> last_reset v = 63835596800000000)
   \<and> (\<exists>v. Vendor_init example_lib example_now (JStr ''Hulon'') (JStr ''Serbule'') (JInt 0)
          (Val (JInt 1700000000)) (JInt 5000) JNull = Inr v
        \<and> last_reset v = example_now)
   \<and> (\<exists>v. Vendor_init example_lib example_now (JStr ''Hulon'') (JStr ''Serbule'') (JInt 0)
          (Dt 63835596800000000) (JInt 5000) JNull = Inr v
        \<and> last_reset v = 63835596800000000)"
proof -
  have c: "py_int example_lib (JInt 0) = Inr 0" and r: "py_int example_lib (JInt 5000) = Inr 5000"
    by (simp_all add: py_int_def)
  have e1: "epoch_caught example_lib (Val (JStr ''yesterday''))"
    and e2: "epoch_caught example_lib (Val (JStr ''2024-01-01T10:00:00''))"
    and e3: "epoch_caught example_lib (Val (JStr ''1700000000''))"
    and e4: "epoch_caught example_lib (Val (JInt 1700000000))"
    and e5: "epoch_caught example_lib (Dt 63835596800000000)"
    by (simp_all add: epoch_caught_def example_lib_def)
  have os: "fromtimestamp_float example_lib ''1e17'' = Inl OSError"
    by (simp add: example_lib_def)
  show ?thesis
    using os
      construction_keeps_going [OF e1 c r, where now = example_now
        and n = "JStr ''Hulon''" and z = "JStr ''Serbule''" and cats = JNull]
      construction_keeps_going [OF e2 c r, where now = example_now
        and n = "JStr ''Hulon''" and z = "JStr ''Serbule''" and cats = JNull]
      construction_keeps_going [OF e3 c r, where now = example_now
        and n = "JStr ''Hulon''" and z = "JStr ''Serbule''" and cats = JNull]
      construction_keeps_going [OF e4 c r, where now = example_now
        and n = "JStr ''Hulon''" and z = "JStr ''Serbule''" and cats = JNull]
      construction_keeps_going [OF e5 c r, where now = example_now
        and n = "JStr ''Hulon''" and z = "JStr ''Serbule''" and cats = JNull]
    by (simp add: coerced_def example_lib_def)
qed

section \<open>Vendor names under add, update, reset and delete\<close>

lemma Vendor_init_ints:
  "Vendor_init L now n z (JInt c) (Dt t) (JInt r) cats =
     Inr \<lparr>name = n, zone = z, council_left = c, last_reset = t, reset_maximum = r,
          categories = py_or cats (JList [])\<rparr>"
  by (simp add: Vendor_init_def py_int_def coerce_last_reset_def)

lemma normalize_idem:
  assumes "0 \<le> d" "0 \<le> h" "0 \<le> m" and "normalize_spec 10079 d h m = (d', h', m')"
  shows "0 \<le> d' \<and> 0 \<le> h' \<and> 0 \<le> m' \<and> normalize_spec 10079 d' h' m' = (d', h', m')"
proof -
  define t where "t = (if d * 1440 + h * 60 + m > 10079 then 10079 else d * 1440 + h * 60 + m)"
  have t0: "0 \<le> t" and t1: "t \<le> 10079" using assms(1-3) by (simp_all add: t_def)
  have d': "d' = t div 1440" and h': "h' = t mod 1440 div 60" and m': "m' = t mod 1440 mod 60"
    using assms(4) by (simp_all add: normalize_spec_def Let_def t_def)
  have s: "d' * 1440 + h' * 60 + m' = t"
    unfolding d' h' m' by (simp add: div_mult_mod_eq)
  have nn: "0 \<le> d' \<and> 0 \<le> h' \<and> 0 \<le> m'"
    unfolding d' h' m' using t0 by (simp add: pos_imp_zdiv_nonneg_iff)
  have "normalize_spec 10079 d' h' m' = (t div 1440, t mod 1440 div 60, t mod 1440 mod 60)"
    using s t1 by (simp add: normalize_spec_def Let_def)
  then show ?thesis using nn d' h' m' by simp
qed

lemma clamp_idem:
  assumes "clamp_reset_inputs L (JInt d0) (JInt h0) (JInt m0) ov = Inr (d, h, m)"
  shows "clamp_reset_inputs L (JInt d) (JInt h) (JInt m) ov = Inr (d, h, m)"
proof (cases ov)
  case True
  then show ?thesis using assms by (auto simp add: clamp_override)
next
  case False
  then have n: "normalize_spec 10079 (max 0 d0) (max 0 h0) (max 0 m0) = (d, h, m)"
    using assms by (simp add: clamp_no_override_ints)
  have "0 \<le> d \<and> 0 \<le> h \<and> 0 \<le> m \<and> normalize_spec 10079 d h m = (d, h, m)"
    using normalize_idem [OF _ _ _ n] by simp
  then show ?thesis using False by (simp add: clamp_no_override)
qed

lemma calc_on_clamped:
  assumes "clamp_reset_inputs L (JInt d0) (JInt h0) (JInt m0) ov = Inr (d, h, m)"
  shows "calculate_last_reset L now (JInt d) (JInt h) (JInt m) ov =
           (if time_in_range now ov (d, h, m)
            then Inr (now - (timedelta 7 0 0 - duration (d, h, m)))
            else Inl OverflowError)"
  using clamp_idem [OF assms] by (simp add: calc_eq)

lemma add_appends:
  "(if add_accepted L now f
    then \<exists>v. vendors (add_and_save L now f a) = vendors a @ [v]
            \<and> name v = JStr (py_strip (name_entry f))
    else add_and_save L now f a = a)"
proof (cases "py_strip (name_entry f) \<noteq> [] \<and> council_entry f \<noteq> None")
  case False
  then show ?thesis
    by (auto simp add: add_accepted_def add_and_save_def Let_def split: option.splits)
next
  case True
  then obtain council where n: "py_strip (name_entry f) \<noteq> []"
    and c: "council_entry f = Some council" by auto
  show ?thesis
  proof (cases "raw_times L f")
    case (Inl e)
    then show ?thesis using n c by (simp add: add_accepted_def add_and_save_def Let_def)
  next
    case (Inr raw)
    obtain d_raw h_raw m_raw where raw: "raw = (d_raw, h_raw, m_raw)" by (cases raw) auto
    obtain d h m where cl:
      "clamp_reset_inputs L (JInt d_raw) (JInt h_raw) (JInt m_raw) (max_time_override_var f)
         = Inr (d, h, m)"
      using clamp_ints_total by blast
    note ca = calc_on_clamped [OF cl, of now]
    show ?thesis
      using n c Inr raw cl ca
      by (simp add: add_accepted_def add_and_save_def Let_def Vendor_init_ints)
  qed
qed

lemma update_council_name: "name (update_council c v) = name v"
  by (simp add: update_council_def Let_def)

lemma update_vendor_name: "name (update_vendor c t cats v) = name v"
  by (simp add: update_vendor_def update_council_name Let_def)

lemma reset_vendor_name: "name (reset_vendor now v) = name v"
  by (simp add: reset_vendor_def Let_def)

lemma map_name_update:
  "(\<And>v. name (g v) = name v) \<Longrightarrow> map name (vs[i := g (vs ! i)]) = map name vs"
proof (rule nth_equalityI)
  show "length (map name (vs[i := g (vs ! i)])) = length (map name vs)" by simp
next
  fix j assume j: "j < length (map name (vs[i := g (vs ! i)]))"
    and g: "\<And>v. name (g v) = name v"
  show "map name (vs[i := g (vs ! i)]) ! j = map name vs ! j"
    using j g by (cases "i = j") simp_all
qed

lemma update_keeps_names:
  "map name (vendors (update_vendor_action L now f i a)) = map name (vendors a)"
  by (auto simp add: update_vendor_action_def Let_def map_name_update update_vendor_name
      update_council_name split: option.splits sum.splits prod.splits)

lemma reset_keeps_names:
  "map name (vendors (reset_now L now c i a)) = map name (vendors a)"
  by (simp add: reset_now_def Let_def map_name_update reset_vendor_name)

lemma example_accepted: "add_accepted example_lib example_now example_form"
  by (simp add: add_accepted_def example_form_def py_strip_def py_rstrip_def py_isspace_def
      raw_times_def py_or_def truthy_def py_int_def MAX_TOTAL_MINUTES_def
      clamp_reset_inputs_def clamp_try_def time_in_range_def duration_def timedelta_def
      timedelta_ok_def datetime_ok_def example_now_def)

lemma example_stripped: "py_strip (name_entry example_form) = ''Hulon''"
  by (simp add: example_form_def py_strip_def py_rstrip_def py_isspace_def)

text \<open>
  Claim C7 says that no two vendors of a collection share a name and that adding a name
  already present replaces the vendor that has it. \<^verbatim>\<open>add_and_save\<close> (both variants) appends
  without looking at the names present: adding ``Hulon'' twice to an empty collection,
  on 1 January 2024, leaves two vendors named ``Hulon''.
\<close>

theorem names_not_unique_counterexample:
  "datetime_ok example_now
   \<and> map name (vendors (add_and_save example_lib example_now example_form
       (add_and_save example_lib example_now example_form example_app)))
     = [JStr ''Hulon'', JStr ''Hulon'']
   \<and> \<not> distinct (map name (vendors (add_and_save example_lib example_now example_form
       (add_and_save example_lib example_now example_form example_app))))"
proof -
  obtain v where v: "vendors (add_and_save example_lib example_now example_form example_app)
      = vendors example_app @ [v]" and nv: "name v = JStr ''Hulon''"
    using add_appends [of example_lib example_now example_form example_app]
      example_accepted example_stripped by auto
  obtain w where w: "vendors (add_and_save example_lib example_now example_form
        (add_and_save example_lib example_now example_form example_app))
      = vendors (add_and_save example_lib example_now example_form example_app) @ [w]"
    and nw: "name w = JStr ''Hulon''"
    using add_appends [of example_lib example_now example_form
        "add_and_save example_lib example_now example_form example_app"]
      example_accepted example_stripped by auto
  have ok: "datetime_ok example_now"
    by (simp add: datetime_ok_def example_now_def)
  show ?thesis
    using v nv w nw ok by (simp add: example_app_def)
qed

text \<open>
  Claim C7, amended. The name is not kept unique. An add that goes through puts one new
  vendor, named by the stripped text of the name field, at the end of the collection and
  changes no other vendor, whatever names are present; an add that does not go through
  changes nothing. Update and reset-now change no name. A confirmed delete removes every
  vendor whose name is equal, by \<^verbatim>\<open>==\<close>, to the name of the deleted vendor (for two
  strings: the same string) and keeps the others in order; a declined delete changes
  nothing.
\<close>

theorem names_under_operations:
  "(if add_accepted L now f
    then \<exists>v. vendors (add_and_save L now f a) = vendors a @ [v]
            \<and> name v = JStr (py_strip (name_entry f))
    else add_and_save L now f a = a)
   \<and> map name (vendors (update_vendor_action L now f i a)) = map name (vendors a)
   \<and> map name (vendors (reset_now L now c i a)) = map name (vendors a)
   \<and> vendors (delete_vendor L True w a)
       = filter (\<lambda>v. \<not> py_eq (name v) (name w)) (vendors a)
   \<and> py_eq (JStr s) (JStr s') = (s = s')
   \<and> delete_vendor L False w a = a"
  using add_appends [of L now f a] update_keeps_names [of L now f i a]
    reset_keeps_names [of L now c i a]
  by (auto simp add: delete_vendor_def Let_def)

theorem names_under_operations_witness:
  "add_accepted example_lib example_now example_form
   \<and> map name (vendors (add_and_save example_lib example_now example_form example_app))
       = [JStr ''Hulon'']
   \<and> vendors (delete_vendor example_lib True example_vendor
        (example_app\<lparr>vendors := [example_vendor, example_vendor\<lparr>zone := JStr ''Eltibule''\<rparr>,
                                  example_vendor\<lparr>name := JStr ''Joe''\<rparr>]\<rparr>))
       = [example_vendor\<lparr>name := JStr ''Joe''\<rparr>]"
proof -
  have "\<exists>v. vendors (add_and_save example_lib example_now example_form example_app)
              = vendors example_app @ [v] \<and> name v = JStr ''Hulon''"
    using example_accepted example_stripped
      names_under_operations
        [where L = example_lib and f = example_form and now = example_now and a = example_app]
    by simp
  then have add: "map name (vendors (add_and_save example_lib example_now example_form example_app))
      = [JStr ''Hulon'']"
    by (auto simp add: example_app_def)
  have "vendors (delete_vendor example_lib True example_vendor
        (example_app\<lparr>vendors := [example_vendor, example_vendor\<lparr>zone := JStr ''Eltibule''\<rparr>,
                                  example_vendor\<lparr>name := JStr ''Joe''\<rparr>]\<rparr>))
      = filter (\<lambda>v. \<not> py_eq (name v) (name example_vendor))
          [example_vendor, example_vendor\<lparr>zone := JStr ''Eltibule''\<rparr>,
           example_vendor\<lparr>name := JStr ''Joe''\<rparr>]"
    using names_under_operations
        [where L = example_lib and w = example_vendor
           and a = "example_app\<lparr>vendors :=
                      [example_vendor, example_vendor\<lparr>zone := JStr ''Eltibule''\<rparr>,
                       example_vendor\<lparr>name := JStr ''Joe''\<rparr>]\<rparr>"]
    by simp
  then have del: "vendors (delete_vendor example_lib True example_vendor
        (example_app\<lparr>vendors := [example_vendor, example_vendor\<lparr>zone := JStr ''Eltibule''\<rparr>,
                                  example_vendor\<lparr>name := JStr ''Joe''\<rparr>]\<rparr>))
      = [example_vendor\<lparr>name := JStr ''Joe''\<rparr>]"
    by (simp add: example_vendor_def)
  show ?thesis
    using example_accepted add del by simp
qed

end
